theory Spec2Isabelle
  imports Complex_Main
begin

section \<open>Python values and exceptions\<close>

text \<open>
  The service is one Python module, \<^verbatim>\<open>webhook-token-refresh.py\<close>. Its text is
  modelled as \<open>string\<close>: a character stands for a code point below 256, which is
  where \<open>str.lower\<close> and \<open>str.strip\<close> are modelled exactly. An exception is a
  value carrying its class and the text \<open>str(e)\<close> gives. All the classes are
  subclasses of \<open>Exception\<close>: what \<open>except Exception\<close> does not catch
  (\<open>KeyboardInterrupt\<close>, \<open>SystemExit\<close>) is outside the model.
\<close>

datatype exn_class =
  TimeoutExpired | FileNotFoundError | IndexError | AttributeError | JSONDecodeError | OtherError

datatype exn = Exn (cls: exn_class) (msg: string)

text \<open>
  The values \<open>json.loads\<close> can return, and \<open>None\<close>. A float is the real number
  it denotes; a dict is its list of items, in order, keys distinct.
\<close>

datatype pyval =
    PNone
  | PBool bool
  | PInt int
  | PFloat real
  | PStr string
  | PList "pyval list"
  | PDict "(string \<times> pyval) list"

text \<open>Truth value testing, as \<open>if x\<close>, \<open>not x\<close> and \<open>x or y\<close> use it.\<close>

fun truthy :: "pyval \<Rightarrow> bool" where
  "truthy PNone = False"
| "truthy (PBool b) = b"
| "truthy (PInt i) = (i \<noteq> 0)"
| "truthy (PFloat r) = (r \<noteq> 0)"
| "truthy (PStr s) = (s \<noteq> [])"
| "truthy (PList xs) = (xs \<noteq> [])"
| "truthy (PDict kvs) = (kvs \<noteq> [])"

definition py_or :: "pyval \<Rightarrow> pyval \<Rightarrow> pyval" where
  "py_or a b = (if truthy a then a else b)"

text \<open>\<open>d.get(k)\<close> on a dict: the value, or \<open>None\<close> for a missing key.\<close>

definition dict_get :: "(string \<times> pyval) list \<Rightarrow> string \<Rightarrow> pyval" where
  "dict_get d k = (case map_of d k of None \<Rightarrow> PNone | Some v \<Rightarrow> v)"

text \<open>\<open>xs[i]\<close> for \<open>i \<ge> 0\<close>: IndexError out of range.\<close>

definition py_index :: "'a list \<Rightarrow> nat \<Rightarrow> exn + 'a" where
  "py_index xs i =
     (if i < length xs then Inr (xs ! i) else Inl (Exn IndexError ''list index out of range''))"

section \<open>String methods\<close>

text \<open>\<open>s.find(c)\<close> and \<open>s.rfind(c)\<close> for a one-character \<open>c\<close>: an index, or -1.\<close>

fun str_find :: "char \<Rightarrow> string \<Rightarrow> int" where
  "str_find c [] = -1"
| "str_find c (x # xs) =
     (if x = c then 0 else (let r = str_find c xs in if r < 0 then -1 else r + 1))"

fun str_rfind :: "char \<Rightarrow> string \<Rightarrow> int" where
  "str_rfind c [] = -1"
| "str_rfind c (x # xs) =
     (let r = str_rfind c xs in if 0 \<le> r then r + 1 else if x = c then 0 else -1)"

text \<open>\<open>s[i:j]\<close> for \<open>0 \<le> i\<close> and \<open>0 \<le> j\<close>, the only slices the module takes.\<close>

definition str_slice :: "string \<Rightarrow> int \<Rightarrow> int \<Rightarrow> string" where
  "str_slice s i j = take (nat j - nat i) (drop (nat i) s)"

text \<open>\<open>s.split(c)\<close> and \<open>s.split(c, 1)\<close> for a one-character separator.\<close>

fun str_split :: "char \<Rightarrow> string \<Rightarrow> string list" where
  "str_split c [] = [[]]"
| "str_split c (x # xs) =
     (if x = c then [] # str_split c xs
      else (case str_split c xs of [] \<Rightarrow> [[x]] | l # ls \<Rightarrow> (x # l) # ls))"

fun str_split1 :: "char \<Rightarrow> string \<Rightarrow> string list" where
  "str_split1 c [] = [[]]"
| "str_split1 c (x # xs) =
     (if x = c then [[], xs]
      else (case str_split1 c xs of [] \<Rightarrow> [[x]] | l # ls \<Rightarrow> (x # l) # ls))"

text \<open>\<open>s.lower()\<close>: the ASCII capitals and the Latin-1 capitals (all but the
  multiplication sign, 215) move up by 32.\<close>

definition lower_char :: "char \<Rightarrow> char" where
  "lower_char c =
     (let n = (of_char c :: nat) in
      if (65 \<le> n \<and> n \<le> 90) \<or> (192 \<le> n \<and> n \<le> 222 \<and> n \<noteq> 215)
      then char_of (n + 32) else c)"

definition str_lower :: "string \<Rightarrow> string" where
  "str_lower s = map lower_char s"

text \<open>\<open>c.isspace()\<close> below 256: tab to carriage return, the four separators
  28 to 31, the space, NEL (133) and the no-break space (160).\<close>

definition isspace :: "char \<Rightarrow> bool" where
  "isspace c =
     (let n = (of_char c :: nat) in
      (9 \<le> n \<and> n \<le> 13) \<or> (28 \<le> n \<and> n \<le> 32) \<or> n = 133 \<or> n = 160)"

text \<open>\<open>s.strip()\<close> and \<open>s.strip(q)\<close> for a one-character \<open>q\<close>.\<close>

definition str_strip :: "string \<Rightarrow> string" where
  "str_strip s = rev (dropWhile isspace (rev (dropWhile isspace s)))"

definition str_strip_char :: "char \<Rightarrow> string \<Rightarrow> string" where
  "str_strip_char q s = rev (dropWhile (\<lambda>c. c = q) (rev (dropWhile (\<lambda>c. c = q) s)))"

text \<open>\<open>p in s\<close> for strings, and \<open>s.startswith(p)\<close>.\<close>

definition startswith :: "string \<Rightarrow> string \<Rightarrow> bool" where
  "startswith p s = (take (length p) s = p)"

fun str_contains :: "string \<Rightarrow> string \<Rightarrow> bool" where
  "str_contains p [] = (p = [])"
| "str_contains p (x # xs) = (startswith p (x # xs) \<or> str_contains p xs)"

section \<open>The output parser\<close>

text \<open>A generator's result: the dict \<open>{"token": ..., "visitorData": ...}\<close>.\<close>

record tokens =
  token :: pyval
  visitorData :: pyval

text \<open>
  The body of the \<open>try\<close> of lines 83-89 (and 142-148, the same text). \<open>loads\<close> is
  \<open>json.loads\<close>, a library function: \<open>Inl\<close> is the exception it raises. \<open>data.get\<close>
  of a value that is no dict raises AttributeError, at the first call, so before
  \<open>token\<close> is assigned. The result is \<open>(token, visitor_data)\<close>, both \<open>None\<close> when
  the \<open>if\<close> is not entered.
\<close>

definition json_try :: "(string \<Rightarrow> exn + pyval) \<Rightarrow> string \<Rightarrow> exn + (pyval \<times> pyval)" where
  "json_try loads output =
     (let json_start = str_find CHR ''{'' output;
          json_end = str_rfind CHR ''}'' output + 1
      in if 0 \<le> json_start \<and> json_start < json_end then
           (case loads (str_slice output json_start json_end) of
              Inl e \<Rightarrow> Inl e
            | Inr data \<Rightarrow>
                (case data of
                   PDict d \<Rightarrow>
                     Inr (py_or (dict_get d ''token'') (dict_get d ''poToken''),
                          py_or (dict_get d ''visitorData'') (dict_get d ''visitor_data''))
                 | _ \<Rightarrow> Inl (Exn AttributeError ''object has no attribute get'')))
         else Inr (PNone, PNone))"

text \<open>\<open>except: pass\<close>: after an exception both variables still hold \<open>None\<close>.\<close>

definition json_pass :: "(string \<Rightarrow> exn + pyval) \<Rightarrow> string \<Rightarrow> pyval \<times> pyval" where
  "json_pass loads output =
     (case json_try loads output of Inl e \<Rightarrow> (PNone, PNone) | Inr tv \<Rightarrow> tv)"

text \<open>\<open>line.split(':', 1)[1].strip().strip('"').strip("'")\<close>.\<close>

definition after_colon :: "string \<Rightarrow> exn + string" where
  "after_colon line =
     (case py_index (str_split1 CHR '':'' line) 1 of
        Inl e \<Rightarrow> Inl e
      | Inr rest \<Rightarrow> Inr (str_strip_char (CHR 0x27) (str_strip_char (CHR 0x22) (str_strip rest))))"

text \<open>One turn of the loop of lines 95-103, on \<open>(token, visitor_data)\<close>.\<close>

definition scan_line_python :: "string \<Rightarrow> pyval \<times> pyval \<Rightarrow> exn + (pyval \<times> pyval)" where
  "scan_line_python line tv =
     (let line_lower = str_lower line in
      if str_contains ''token'' line_lower \<and> CHR '':'' \<in> set line
           \<and> 1 < length (str_split CHR '':'' line) then
        (case after_colon line of
           Inl e \<Rightarrow> Inl e
         | Inr potential_token \<Rightarrow>
             if 20 < length potential_token then Inr (PStr potential_token, snd tv) else Inr tv)
      else if (str_contains ''visitor'' line_lower \<and> str_contains ''data'' line_lower)
                \<or> str_contains ''visitordata'' line_lower then
        (if CHR '':'' \<in> set line then
           (case after_colon line of
              Inl e \<Rightarrow> Inl e
            | Inr v \<Rightarrow> Inr (fst tv, PStr v))
         else Inr tv)
      else Inr tv)"

text \<open>One turn of the loop of lines 154-158.\<close>

definition scan_line_docker :: "string \<Rightarrow> pyval \<times> pyval \<Rightarrow> exn + (pyval \<times> pyval)" where
  "scan_line_docker line tv =
     (if str_contains ''token'' (str_lower line) \<and> CHR '':'' \<in> set line then
        (case after_colon line of
           Inl e \<Rightarrow> Inl e
         | Inr t \<Rightarrow> Inr (PStr t, snd tv))
      else if str_contains ''visitor'' (str_lower line) \<and> str_contains ''data'' (str_lower line)
                \<and> CHR '':'' \<in> set line then
        (case after_colon line of
           Inl e \<Rightarrow> Inl e
         | Inr v \<Rightarrow> Inr (fst tv, PStr v))
      else Inr tv)"

text \<open>\<open>for line in lines\<close>: an exception in a turn leaves the loop.\<close>

fun for_lines :: "(string \<Rightarrow> 's \<Rightarrow> exn + 's) \<Rightarrow> string list \<Rightarrow> 's \<Rightarrow> exn + 's" where
  "for_lines step [] s = Inr s"
| "for_lines step (line # lines) s =
     (case step line s of Inl e \<Rightarrow> Inl e | Inr s' \<Rightarrow> for_lines step lines s')"

text \<open>Lines 105-110 and 160-165: the pair, or \<open>None\<close>.\<close>

definition finish :: "pyval \<times> pyval \<Rightarrow> tokens option" where
  "finish tv =
     (if truthy (fst tv) \<and> truthy (snd tv)
      then Some \<lparr>token = fst tv, visitorData = snd tv\<rparr> else None)"

text \<open>Lines 78-110 of \<open>generate_token_python\<close>, from \<open>output\<close> to the value returned.\<close>

definition parse_output_python ::
  "(string \<Rightarrow> exn + pyval) \<Rightarrow> string \<Rightarrow> exn + tokens option" where
  "parse_output_python loads output =
     (let tv = json_pass loads output in
      case (if \<not> truthy (fst tv) \<or> \<not> truthy (snd tv)
            then for_lines scan_line_python (str_split (CHR 0x0A) output) tv
            else Inr tv) of
        Inl e \<Rightarrow> Inl e
      | Inr tv' \<Rightarrow> Inr (finish tv'))"

text \<open>Lines 137-165 of \<open>generate_token_docker\<close>.\<close>

definition parse_output_docker ::
  "(string \<Rightarrow> exn + pyval) \<Rightarrow> string \<Rightarrow> exn + tokens option" where
  "parse_output_docker loads output =
     (let tv = json_pass loads output in
      case (if \<not> truthy (fst tv) \<or> \<not> truthy (snd tv)
            then for_lines scan_line_docker (str_split (CHR 0x0A) output) tv
            else Inr tv) of
        Inl e \<Rightarrow> Inl e
      | Inr tv' \<Rightarrow> Inr (finish tv'))"

section \<open>The world outside the process\<close>

text \<open>
  What the module does to the outside is a trace of events, in order: a process
  started in the background, a sleep, a process run to its end, an HTTP POST. What the
  outside answers is a function of the trace up to and including the call, so that two
  calls of the same kind can get different answers. Logging is left out: no value the
  module computes depends on it.
\<close>

datatype event =
    Popen "string list"
  | Sleep nat
  | Run "string list" "string option" nat "(string \<times> string) list"
  | Post string pyval "(string \<times> string) list" nat

text \<open>\<open>subprocess.run\<close>: a completed process (return code, stdout, stderr), or the
  exception raised (TimeoutExpired, FileNotFoundError, any other).\<close>

datatype run_outcome = Completed int string string | RunRaises exn

record world =
  os_path_exists :: "event list \<Rightarrow> string \<Rightarrow> bool"
  glob_glob :: "event list \<Rightarrow> string \<Rightarrow> string list"
  popen_outcome :: "event list \<Rightarrow> exn option"
  run_result :: "event list \<Rightarrow> run_outcome"
  post_outcome :: "event list \<Rightarrow> exn + int"
  json_loads :: "string \<Rightarrow> exn + pyval"

section \<open>Configuration\<close>

record config =
  LAVALINK_URL :: string
  LAVALINK_PASSWORD :: string
  USE_DOCKER :: bool

definition getenv :: "(string \<rightharpoonup> string) \<Rightarrow> string \<Rightarrow> string \<Rightarrow> string" where
  "getenv environ name fallback = (case environ name of None \<Rightarrow> fallback | Some v \<Rightarrow> v)"

text \<open>Lines 24-25: \<open>if LAVALINK_URL and not LAVALINK_URL.startswith((...))\<close>.\<close>

definition ensure_protocol :: "string \<Rightarrow> string" where
  "ensure_protocol url =
     (if url \<noteq> [] \<and> \<not> (startswith ''http://'' url \<or> startswith ''https://'' url)
      then ''http://'' @ url else url)"

text \<open>Lines 22-27, from the process environment.\<close>

definition load_config :: "(string \<rightharpoonup> string) \<Rightarrow> config" where
  "load_config environ =
     \<lparr>LAVALINK_URL = ensure_protocol (getenv environ ''LAVALINK_URL'' ''http://localhost:9296''),
      LAVALINK_PASSWORD = getenv environ ''LAVALINK_PASSWORD'' ''glace'',
      USE_DOCKER = (str_lower (getenv environ ''USE_DOCKER'' ''true'') = ''true'')\<rparr>"

section \<open>The generator strategies\<close>

text \<open>An action takes the trace so far and returns its value, or the exception that
  leaves it, with the trace extended.\<close>

type_synonym 'a action = "event list \<Rightarrow> (exn + 'a) \<times> event list"

definition xvfb_argv :: "string list" where
  "xvfb_argv = [''Xvfb'', '':99'', ''-screen'', ''0'', ''1024x768x24'']"

definition docker_argv :: "string list" where
  "docker_argv = [''docker'', ''run'', ''--rm'', ''iv-org/youtube-trusted-session-generator'']"

text \<open>Lines 55-110: Xvfb, the sleep, the generator, the parse of stdout + stderr.\<close>

definition run_generator :: "world \<Rightarrow> string \<Rightarrow> tokens option action" where
  "run_generator w generator_path tr =
     (let tr1 = tr @ [Popen xvfb_argv] in
      case popen_outcome w tr1 of
        Some e \<Rightarrow> (Inl e, tr1)
      | None \<Rightarrow>
          (let tr2 = tr1 @ [Sleep 1];
               tr3 = tr2 @ [Run [''python3'', generator_path] (Some ''/app/generator'') 120
                              [(''DISPLAY'', '':99''), (''HEADLESS'', ''true'')]]
           in case run_result w tr3 of
                RunRaises e \<Rightarrow> (Inl e, tr3)
              | Completed returncode stdout stderr \<Rightarrow>
                  (parse_output_python (json_loads w) (stdout @ stderr), tr3)))"

text \<open>The body of the \<open>try\<close> of \<open>generate_token_python\<close>, lines 39-110.\<close>

definition python_try :: "world \<Rightarrow> tokens option action" where
  "python_try w tr =
     (let generator_path = ''/app/generator/main.py'';
          generator_path =
            (if \<not> os_path_exists w tr generator_path
             then ''/app/generator/generate.py'' else generator_path)
      in if \<not> os_path_exists w tr generator_path then
           (case glob_glob w tr ''/app/generator/*.py'' of
              [] \<Rightarrow> (Inr None, tr)
            | first_file # others \<Rightarrow> run_generator w first_file tr)
         else run_generator w generator_path tr)"

text \<open>\<open>generate_token_python\<close>: both handlers (lines 112-117) return \<open>None\<close>.\<close>

definition generate_token_python :: "world \<Rightarrow> tokens option action" where
  "generate_token_python w tr =
     (case python_try w tr of
        (Inl e, tr') \<Rightarrow>
          (if cls e = TimeoutExpired then (Inr None, tr') else (Inr None, tr'))
      | (Inr r, tr') \<Rightarrow> (Inr r, tr'))"

text \<open>The body of the \<open>try\<close> of \<open>generate_token_docker\<close>, lines 123-165.\<close>

definition docker_try :: "world \<Rightarrow> tokens option action" where
  "docker_try w tr =
     (let tr1 = tr @ [Run docker_argv None 60 []] in
      case run_result w tr1 of
        RunRaises e \<Rightarrow> (Inl e, tr1)
      | Completed returncode stdout stderr \<Rightarrow>
          if returncode \<noteq> 0 then (Inr None, tr1)
          else (parse_output_docker (json_loads w) stdout, tr1))"

text \<open>\<open>generate_token_docker\<close>: both handlers (lines 167-172) return
  \<open>generate_token_python()\<close>.\<close>

definition generate_token_docker :: "world \<Rightarrow> tokens option action" where
  "generate_token_docker w tr =
     (case docker_try w tr of
        (Inl e, tr') \<Rightarrow>
          (if cls e = FileNotFoundError then generate_token_python w tr'
           else generate_token_python w tr')
      | (Inr r, tr') \<Rightarrow> (Inr r, tr'))"

section \<open>The proxy updater\<close>

text \<open>The body of the \<open>try\<close> of \<open>update_lavalink_token\<close>, lines 178-195.\<close>

definition update_try :: "config \<Rightarrow> world \<Rightarrow> pyval \<Rightarrow> pyval \<Rightarrow> bool action" where
  "update_try cfg w tok visitor_data tr =
     (let url = LAVALINK_URL cfg @ ''/youtube'';
          headers = [(''Content-Type'', ''application/json''),
                     (''Authorization'', LAVALINK_PASSWORD cfg)];
          payload = PDict [(''poToken'', tok), (''visitorData'', visitor_data)];
          tr1 = tr @ [Post url payload headers 10]
      in case post_outcome w tr1 of
           Inl e \<Rightarrow> (Inl e, tr1)
         | Inr status_code \<Rightarrow> (Inr (status_code = 204), tr1))"

definition update_lavalink_token :: "config \<Rightarrow> world \<Rightarrow> pyval \<Rightarrow> pyval \<Rightarrow> bool action" where
  "update_lavalink_token cfg w tok visitor_data tr =
     (case update_try cfg w tok visitor_data tr of
        (Inl e, tr') \<Rightarrow> (Inr False, tr')
      | (Inr ok, tr') \<Rightarrow> (Inr ok, tr'))"

section \<open>The refresh endpoint\<close>

record response =
  http_status :: nat
  http_body :: pyval

definition success_response :: response where
  "success_response =
     \<lparr>http_status = 200,
      http_body = PDict [(''success'', PBool True), (''message'', PStr ''Token refreshed successfully'')]\<rparr>"

definition error_response :: "string \<Rightarrow> response" where
  "error_response message =
     \<lparr>http_status = 500, http_body = PDict [(''success'', PBool False), (''error'', PStr message)]\<rparr>"

text \<open>
  Lines 209-212, the orchestration. The three functions \<open>refresh_token\<close> calls are
  parameters here, so that what the \<open>try\<close> of \<open>refresh_token\<close> does with an exception
  of a callee is part of the model.
\<close>

definition generate_with ::
  "tokens option action \<Rightarrow> tokens option action \<Rightarrow> bool \<Rightarrow> tokens option action" where
  "generate_with gen_python gen_docker use_docker tr =
     (case gen_python tr of
        (Inl e, tr1) \<Rightarrow> (Inl e, tr1)
      | (Inr toks, tr1) \<Rightarrow>
          if toks = None \<and> use_docker then gen_docker tr1 else (Inr toks, tr1))"

text \<open>The body of the \<open>try\<close> of \<open>refresh_token\<close>, lines 206-220.\<close>

definition refresh_try ::
  "tokens option action \<Rightarrow> tokens option action \<Rightarrow> (pyval \<Rightarrow> pyval \<Rightarrow> bool action) \<Rightarrow> bool
     \<Rightarrow> response action" where
  "refresh_try gen_python gen_docker update use_docker tr =
     (case generate_with gen_python gen_docker use_docker tr of
        (Inl e, tr1) \<Rightarrow> (Inl e, tr1)
      | (Inr None, tr1) \<Rightarrow> (Inr (error_response ''Failed to generate token''), tr1)
      | (Inr (Some toks), tr1) \<Rightarrow>
          (case update (token toks) (visitorData toks) tr1 of
             (Inl e, tr2) \<Rightarrow> (Inl e, tr2)
           | (Inr ok, tr2) \<Rightarrow>
               (Inr (if ok then success_response
                     else error_response ''Failed to update Lavalink''), tr2)))"

text \<open>\<open>except Exception as e\<close>, lines 222-224: status 500 with \<open>str(e)\<close>.\<close>

definition refresh_token_with ::
  "tokens option action \<Rightarrow> tokens option action \<Rightarrow> (pyval \<Rightarrow> pyval \<Rightarrow> bool action) \<Rightarrow> bool
     \<Rightarrow> event list \<Rightarrow> response \<times> event list" where
  "refresh_token_with gen_python gen_docker update use_docker tr =
     (case refresh_try gen_python gen_docker update use_docker tr of
        (Inl e, tr') \<Rightarrow> (error_response (msg e), tr')
      | (Inr r, tr') \<Rightarrow> (r, tr'))"

text \<open>The module's own: the callees are its three functions and its flag.\<close>

definition generate :: "config \<Rightarrow> world \<Rightarrow> tokens option action" where
  "generate cfg w =
     generate_with (generate_token_python w) (generate_token_docker w) (USE_DOCKER cfg)"

definition refresh_token :: "config \<Rightarrow> world \<Rightarrow> event list \<Rightarrow> response \<times> event list" where
  "refresh_token cfg w =
     refresh_token_with (generate_token_python w) (generate_token_docker w)
       (update_lavalink_token cfg w) (USE_DOCKER cfg)"

section \<open>A JSON decoder for concrete inputs\<close>

text \<open>
  \<open>json.loads\<close> is a parameter of the parser, and every general theorem below holds
  for any decoder. The examples need one decoder to run: \<open>decode_json\<close> follows
  \<open>json.decoder\<close> on objects, arrays, strings with the one-letter escapes, integers,
  \<open>true\<close>, \<open>false\<close> and \<open>null\<close>, with a repeated key keeping its last value. Numbers
  with a fraction or an exponent, \<open>NaN\<close>, \<open>Infinity\<close> and unicode escapes are outside
  it (it reports them as errors), and no example uses them. The first argument of the
  \<open>scan\<close> functions bounds the number of nested calls; the length of the text is enough.
\<close>

definition json_ws :: "char \<Rightarrow> bool" where
  "json_ws c = (c = CHR '' '' \<or> c = CHR 0x09 \<or> c = CHR 0x0A \<or> c = CHR 0x0D)"

definition skip_ws :: "string \<Rightarrow> string" where
  "skip_ws s = dropWhile json_ws s"

definition is_digit :: "char \<Rightarrow> bool" where
  "is_digit c = (48 \<le> (of_char c :: nat) \<and> (of_char c :: nat) \<le> 57)"

definition unescape :: "char \<Rightarrow> char option" where
  "unescape c =
     (if c = CHR 0x22 \<or> c = CHR 0x5C \<or> c = CHR ''/'' then Some c
      else if c = CHR ''b'' then Some (CHR 0x08)
      else if c = CHR ''f'' then Some (CHR 0x0C)
      else if c = CHR ''n'' then Some (CHR 0x0A)
      else if c = CHR ''r'' then Some (CHR 0x0D)
      else if c = CHR ''t'' then Some (CHR 0x09)
      else None)"

fun scanstring :: "string \<Rightarrow> (string \<times> string) option" where
  "scanstring [] = None"
| "scanstring [c] = (if c = CHR 0x22 then Some ([], []) else None)"
| "scanstring (c # d # cs) =
     (if c = CHR 0x22 then Some ([], d # cs)
      else if c = CHR 0x5C then
        (case unescape d of
           None \<Rightarrow> None
         | Some ch \<Rightarrow>
             (case scanstring cs of None \<Rightarrow> None | Some (s, r) \<Rightarrow> Some (ch # s, r)))
      else if (of_char c :: nat) < 32 then None
      else (case scanstring (d # cs) of None \<Rightarrow> None | Some (s, r) \<Rightarrow> Some (c # s, r)))"

definition digits_value :: "string \<Rightarrow> int" where
  "digits_value ds = foldl (\<lambda>n d. 10 * n + (int (of_char d) - 48)) 0 ds"

definition float_tail :: "string \<Rightarrow> bool" where
  "float_tail r =
     (case r of
        [] \<Rightarrow> False
      | c # r1 \<Rightarrow>
          if c = CHR ''.'' then (case r1 of [] \<Rightarrow> False | d # r2 \<Rightarrow> is_digit d)
          else if c = CHR ''e'' \<or> c = CHR ''E'' then
            (case r1 of
               [] \<Rightarrow> False
             | d # r2 \<Rightarrow>
                 is_digit d \<or>
                 ((d = CHR ''+'' \<or> d = CHR ''-'') \<and> (case r2 of [] \<Rightarrow> False | d' # r3 \<Rightarrow> is_digit d')))
          else False)"

definition scan_number :: "string \<Rightarrow> (pyval \<times> string) option" where
  "scan_number s =
     (let neg = (s \<noteq> [] \<and> hd s = CHR ''-'');
          s1 = (if neg then tl s else s);
          ds = (if s1 \<noteq> [] \<and> hd s1 = CHR ''0'' then ''0'' else takeWhile is_digit s1);
          r = drop (length ds) s1
      in if ds = [] \<or> float_tail r then None
         else Some (PInt (if neg then - digits_value ds else digits_value ds), r))"

fun dict_put :: "string \<Rightarrow> pyval \<Rightarrow> (string \<times> pyval) list \<Rightarrow> (string \<times> pyval) list" where
  "dict_put k v [] = [(k, v)]"
| "dict_put k v ((k', v') # d) = (if k' = k then (k, v) # d else (k', v') # dict_put k v d)"

fun scan_value :: "nat \<Rightarrow> string \<Rightarrow> (pyval \<times> string) option"
  and scan_members :: "nat \<Rightarrow> (string \<times> pyval) list \<Rightarrow> string \<Rightarrow> (pyval \<times> string) option"
  and scan_elements :: "nat \<Rightarrow> pyval list \<Rightarrow> string \<Rightarrow> (pyval \<times> string) option" where
  "scan_value 0 s = None"
| "scan_value (Suc n) s =
     (case s of
        [] \<Rightarrow> None
      | c # cs \<Rightarrow>
          if c = CHR 0x22 then
            (case scanstring cs of None \<Rightarrow> None | Some (str, r) \<Rightarrow> Some (PStr str, r))
          else if c = CHR ''{'' then
            (if startswith ''}'' (skip_ws cs) then Some (PDict [], tl (skip_ws cs))
             else scan_members n [] (skip_ws cs))
          else if c = CHR ''['' then
            (if startswith '']'' (skip_ws cs) then Some (PList [], tl (skip_ws cs))
             else scan_elements n [] (skip_ws cs))
          else if startswith ''null'' s then Some (PNone, drop 4 s)
          else if startswith ''true'' s then Some (PBool True, drop 4 s)
          else if startswith ''false'' s then Some (PBool False, drop 5 s)
          else scan_number s)"
| "scan_members 0 d s = None"
| "scan_members (Suc n) d s =
     (if \<not> startswith [CHR 0x22] s then None
      else
        (case scanstring (tl s) of
           None \<Rightarrow> None
         | Some (key, r) \<Rightarrow>
             if \<not> startswith '':'' (skip_ws r) then None
             else
               (case scan_value n (skip_ws (tl (skip_ws r))) of
                  None \<Rightarrow> None
                | Some (v, r1) \<Rightarrow>
                    if startswith ''}'' (skip_ws r1) then Some (PDict (dict_put key v d), tl (skip_ws r1))
                    else if startswith '','' (skip_ws r1)
                    then scan_members n (dict_put key v d) (skip_ws (tl (skip_ws r1)))
                    else None)))"
| "scan_elements 0 xs s = None"
| "scan_elements (Suc n) xs s =
     (case scan_value n s of
        None \<Rightarrow> None
      | Some (v, r1) \<Rightarrow>
          if startswith '']'' (skip_ws r1) then Some (PList (xs @ [v]), tl (skip_ws r1))
          else if startswith '','' (skip_ws r1)
          then scan_elements n (xs @ [v]) (skip_ws (tl (skip_ws r1)))
          else None)"

definition decode_json :: "string \<Rightarrow> exn + pyval" where
  "decode_json s =
     (case scan_value (Suc (length s)) (skip_ws s) of
        None \<Rightarrow> Inl (Exn JSONDecodeError ''Expecting value'')
      | Some (v, r) \<Rightarrow>
          if skip_ws r = [] then Inr v else Inl (Exn JSONDecodeError ''Extra data''))"

section \<open>Example outputs\<close>

definition newline :: string where
  "newline = [CHR 0x0A]"

definition json_text_mid :: string where
  "json_text_mid =
     ''\"token\": \"abcdefghijklmnopqrstuvwxyz123456\", \"visitorData\": \"xyz987\"''"

definition json_text :: string where
  "json_text = CHR ''{'' # json_text_mid @ [CHR ''}'']"

definition malformed_output :: string where
  "malformed_output =
     ''{not json}'' @ newline @ ''Token: abcdefghijklmnopqrstuvwxyz123456'' @ newline
       @ ''visitorData: xyz987''"

definition short_token_output :: string where
  "short_token_output = ''token: abcdefghijklmno'' @ newline @ ''visitorData: xyz987''"

definition short_tokens :: tokens where
  "short_tokens = \<lparr>token = PStr ''abcdefghijklmno'', visitorData = PStr ''xyz987''\<rparr>"

section \<open>Example worlds\<close>

text \<open>An event is a container call when it runs a command line that starts with
  \<open>docker\<close>.\<close>

fun docker_call :: "event \<Rightarrow> bool" where
  "docker_call (Run argv cwd timeout env) = (take 1 argv = [''docker''])"
| "docker_call (Popen argv) = False"
| "docker_call (Sleep n) = False"
| "docker_call (Post url payload headers timeout) = False"

text \<open>
  A world for the examples: the generator script is at its first expected path, Xvfb
  starts, a run of \<open>docker\<close> ends as \<open>docker_run\<close> says and any other run as
  \<open>python_run\<close> says, the proxy answers every POST with \<open>post\<close>, and JSON is decoded
  by \<open>decode_json\<close>.
\<close>

definition example_world :: "run_outcome \<Rightarrow> run_outcome \<Rightarrow> exn + int \<Rightarrow> world" where
  "example_world python_run docker_run post =
     \<lparr>os_path_exists = (\<lambda>tr path. path = ''/app/generator/main.py''),
      glob_glob = (\<lambda>tr pattern. []),
      popen_outcome = (\<lambda>tr. None),
      run_result = (\<lambda>tr. if tr \<noteq> [] \<and> docker_call (last tr) then docker_run else python_run),
      post_outcome = (\<lambda>tr. post),
      json_loads = decode_json\<rparr>"

definition good_output :: string where
  "good_output = ''Token: abcdefghijklmnopqrstuvwxyz123456'' @ newline @ ''visitorData: xyz987''"

definition good_tokens :: tokens where
  "good_tokens = \<lparr>token = PStr ''abcdefghijklmnopqrstuvwxyz123456'', visitorData = PStr ''xyz987''\<rparr>"

definition timed_out :: run_outcome where
  "timed_out = RunRaises (Exn TimeoutExpired ''timed out'')"

definition docker_missing :: run_outcome where
  "docker_missing = RunRaises (Exn FileNotFoundError ''No such file or directory: docker'')"

definition docker_event :: event where
  "docker_event = Run docker_argv None 60 []"

definition post_event :: event where
  "post_event =
     Post ''http://localhost:9296/youtube''
       (PDict [(''poToken'', PStr ''abcdefghijklmnopqrstuvwxyz123456''),
               (''visitorData'', PStr ''xyz987'')])
       [(''Content-Type'', ''application/json''), (''Authorization'', ''glace'')] 10"

definition python_events :: "event list" where
  "python_events =
     [Popen xvfb_argv, Sleep 1,
      Run [''python3'', ''/app/generator/main.py''] (Some ''/app/generator'') 120
        [(''DISPLAY'', '':99''), (''HEADLESS'', ''true'')]]"

section \<open>Strings and the line scan\<close>

lemma str_find_append:
  "c \<notin> set pre \<Longrightarrow> str_find c (pre @ c # rest) = int (length pre)"
  by (induction pre) (auto simp: Let_def)

lemma str_rfind_notin: "c \<notin> set xs \<Longrightarrow> str_rfind c xs = -1"
  by (induction xs) (auto simp: Let_def)

lemma str_rfind_append:
  "c \<notin> set post \<Longrightarrow> str_rfind c (xs @ c # post) = int (length xs)"
  by (induction xs) (auto simp: Let_def str_rfind_notin)

lemma str_slice_middle:
  "str_slice (pre @ js @ post) (int (length pre)) (int (length pre + length js)) = js"
  by (simp add: str_slice_def)

lemma str_split1_length: "c \<in> set s \<Longrightarrow> length (str_split1 c s) = 2"
proof (induction s)
  case Nil
  then show ?case by simp
next
  case (Cons x xs)
  show ?case
  proof (cases "x = c")
    case True
    then show ?thesis by simp
  next
    case False
    with Cons have "length (str_split1 c xs) = 2" by simp
    then obtain a b where "str_split1 c xs = [a, b]"
      by (cases "str_split1 c xs"; simp; metis length_0_conv length_Suc_conv)
    with False show ?thesis by simp
  qed
qed

lemma after_colon_total: "CHR '':'' \<in> set line \<Longrightarrow> \<exists>v. after_colon line = Inr v"
  by (simp add: after_colon_def py_index_def str_split1_length)

lemma scan_line_python_total: "\<exists>tv'. scan_line_python line tv = Inr tv'"
proof (cases "CHR '':'' \<in> set line")
  case True
  then obtain v where "after_colon line = Inr v" using after_colon_total by blast
  then show ?thesis by (simp add: scan_line_python_def Let_def)
next
  case False
  then show ?thesis by (simp add: scan_line_python_def Let_def)
qed

lemma scan_line_docker_total: "\<exists>tv'. scan_line_docker line tv = Inr tv'"
proof (cases "CHR '':'' \<in> set line")
  case True
  then obtain v where "after_colon line = Inr v" using after_colon_total by blast
  then show ?thesis by (simp add: scan_line_docker_def)
next
  case False
  then show ?thesis by (simp add: scan_line_docker_def)
qed

lemma for_lines_total:
  assumes "\<And>line s. \<exists>s'. f line s = Inr s'"
  shows "\<exists>s'. for_lines f ls s = Inr s'"
proof (induction ls arbitrary: s)
  case Nil
  show ?case by simp
next
  case (Cons l ls)
  from assms obtain s1 where "f l s = Inr s1" by blast
  with Cons show ?case by simp
qed

lemma parse_output_python_total: "\<exists>r. parse_output_python loads output = Inr r"
proof -
  obtain tv where "for_lines scan_line_python (str_split (CHR 0x0A) output) (json_pass loads output) = Inr tv"
    using for_lines_total [of scan_line_python] scan_line_python_total by blast
  then show ?thesis by (simp add: parse_output_python_def Let_def)
qed

lemma parse_output_docker_total: "\<exists>r. parse_output_docker loads output = Inr r"
proof -
  obtain tv where "for_lines scan_line_docker (str_split (CHR 0x0A) output) (json_pass loads output) = Inr tv"
    using for_lines_total [of scan_line_docker] scan_line_docker_total by blast
  then show ?thesis by (simp add: parse_output_docker_def Let_def)
qed

text \<open>In the scan of \<open>generate_token_python\<close> a line changes \<open>token\<close> only to a
  string of more than 20 characters.\<close>

lemma scan_line_python_token:
  "scan_line_python line tv = Inr tv' \<Longrightarrow>
     fst tv' = fst tv \<or> (\<exists>s. fst tv' = PStr s \<and> 20 < length s)"
  by (auto simp: scan_line_python_def Let_def split: if_splits sum.splits)

lemma for_lines_python_token:
  "for_lines scan_line_python ls tv = Inr tv' \<Longrightarrow>
     fst tv' = fst tv \<or> (\<exists>s. fst tv' = PStr s \<and> 20 < length s)"
proof (induction ls arbitrary: tv)
  case Nil
  then show ?case by simp
next
  case (Cons l ls)
  then obtain tv1 where s1: "scan_line_python l tv = Inr tv1"
      and r: "for_lines scan_line_python ls tv1 = Inr tv'"
    by (auto split: sum.splits)
  from Cons.IH [OF r] scan_line_python_token [OF s1] show ?case by auto
qed

section \<open>The parser\<close>

lemma json_pass_no_brace:
  "str_find CHR ''{'' output = -1 \<Longrightarrow> json_pass loads output = (PNone, PNone)"
  by (simp add: json_pass_def json_try_def Let_def)

lemma short_token_no_brace: "str_find CHR ''{'' short_token_output = -1"
  by code_simp

lemma short_token_scan_docker:
  "for_lines scan_line_docker (str_split (CHR 0x0A) short_token_output) (PNone, PNone) =
     Inr (PStr ''abcdefghijklmno'', PStr ''xyz987'')"
  by code_simp

lemma short_token_scan_python:
  "for_lines scan_line_python (str_split (CHR 0x0A) short_token_output) (PNone, PNone) =
     Inr (PNone, PStr ''xyz987'')"
  by code_simp

lemma short_token_parse_docker:
  "parse_output_docker loads short_token_output = Inr (Some short_tokens)"
  unfolding parse_output_docker_def json_pass_no_brace [OF short_token_no_brace]
  using short_token_scan_docker by (simp add: finish_def short_tokens_def)

lemma short_token_parse_python:
  "parse_output_python loads short_token_output = Inr None"
  unfolding parse_output_python_def json_pass_no_brace [OF short_token_no_brace]
  using short_token_scan_python by (simp add: finish_def)

lemma json_pass_embedded:
  assumes "CHR ''{'' \<notin> set pre" and "CHR ''}'' \<notin> set post"
    and "loads (CHR ''{'' # mid @ [CHR ''}'']) = Inr (PDict d)"
  shows "json_pass loads (pre @ (CHR ''{'' # mid @ [CHR ''}'']) @ post) =
           (py_or (dict_get d ''token'') (dict_get d ''poToken''),
            py_or (dict_get d ''visitorData'') (dict_get d ''visitor_data''))"
proof -
  let ?js = "CHR ''{'' # mid @ [CHR ''}'']"
  let ?out = "pre @ ?js @ post"
  have f: "str_find CHR ''{'' ?out = int (length pre)"
    using assms(1) str_find_append [of "CHR ''{''" pre "mid @ [CHR ''}''] @ post"] by simp
  have "?out = (pre @ CHR ''{'' # mid) @ CHR ''}'' # post" by simp
  then have r: "str_rfind CHR ''}'' ?out = int (length pre + length mid + 1)"
    using assms(2) str_rfind_append [of "CHR ''}''" post "pre @ CHR ''{'' # mid"] by simp
  have s: "str_slice ?out (int (length pre)) (int (length pre + length ?js)) = ?js"
    by (rule str_slice_middle)
  have e: "int (length pre + length mid + 1) + 1 = int (length pre + length ?js)" by simp
  show ?thesis
    unfolding json_pass_def json_try_def f r e
    using s assms(3) by (simp add: Let_def)
qed

text \<open>
  C2, as amended. Let the output be some text, then a text that starts with \<open>{\<close> and
  ends with \<open>}\<close>, then some text, where the text before has no \<open>{\<close> and the text after
  has no \<open>}\<close>. If the decoder reads the middle as a dict \<open>d\<close>, and \<open>d.get('token') or
  d.get('poToken')\<close> and \<open>d.get('visitorData') or d.get('visitor_data')\<close> are both true
  values, the parser of either strategy returns exactly these two.
\<close>

theorem embedded_json_returned:
  assumes "CHR ''{'' \<notin> set pre" and "CHR ''}'' \<notin> set post"
    and "loads (CHR ''{'' # mid @ [CHR ''}'']) = Inr (PDict d)"
    and "truthy (py_or (dict_get d ''token'') (dict_get d ''poToken''))"
    and "truthy (py_or (dict_get d ''visitorData'') (dict_get d ''visitor_data''))"
  shows "parse_output_python loads (pre @ (CHR ''{'' # mid @ [CHR ''}'']) @ post) =
           Inr (Some \<lparr>token = py_or (dict_get d ''token'') (dict_get d ''poToken''),
                       visitorData = py_or (dict_get d ''visitorData'') (dict_get d ''visitor_data'')\<rparr>)
       \<and> parse_output_docker loads (pre @ (CHR ''{'' # mid @ [CHR ''}'']) @ post) =
           Inr (Some \<lparr>token = py_or (dict_get d ''token'') (dict_get d ''poToken''),
                       visitorData = py_or (dict_get d ''visitorData'') (dict_get d ''visitor_data'')\<rparr>)"
proof -
  have jp: "json_pass loads (pre @ (CHR ''{'' # mid @ [CHR ''}'']) @ post) =
           (py_or (dict_get d ''token'') (dict_get d ''poToken''),
            py_or (dict_get d ''visitorData'') (dict_get d ''visitor_data''))"
    using assms(1,2,3) by (rule json_pass_embedded)
  show ?thesis
    unfolding parse_output_python_def parse_output_docker_def jp
    using assms(4,5) by (simp add: finish_def)
qed

text \<open>
  C2 as stated fails: the text around the JSON may hold braces. After a line
  \<open>state {busy}\<close> the valid JSON \<open>json_text\<close> is not found: the text from the first
  \<open>{\<close> to the last \<open>}\<close> is no JSON, the line scan takes the rest of the JSON line for
  the token and finds no visitor value, and both parsers return \<open>None\<close>.
\<close>

theorem embedded_json_noise_counterexample:
  "decode_json json_text =
     Inr (PDict [(''token'', PStr ''abcdefghijklmnopqrstuvwxyz123456''), (''visitorData'', PStr ''xyz987'')])
   \<and> parse_output_python decode_json (''state {busy}'' @ newline @ json_text) = Inr None
   \<and> parse_output_docker decode_json (''state {busy}'' @ newline @ json_text) = Inr None"
  by code_simp

text \<open>An output the amended C2 applies to: a line before the JSON, a line after.\<close>

theorem embedded_json_returned_witness:
  "CHR ''{'' \<notin> set (''starting'' @ newline) \<and> CHR ''}'' \<notin> set (newline @ ''done'')
   \<and> decode_json (CHR ''{'' # json_text_mid @ [CHR ''}'']) =
       Inr (PDict [(''token'', PStr ''abcdefghijklmnopqrstuvwxyz123456''), (''visitorData'', PStr ''xyz987'')])
   \<and> parse_output_python decode_json
        ((''starting'' @ newline) @ (CHR ''{'' # json_text_mid @ [CHR ''}'']) @ (newline @ ''done'')) =
       Inr (Some \<lparr>token = PStr ''abcdefghijklmnopqrstuvwxyz123456'', visitorData = PStr ''xyz987''\<rparr>)
   \<and> parse_output_docker decode_json
        ((''starting'' @ newline) @ (CHR ''{'' # json_text_mid @ [CHR ''}'']) @ (newline @ ''done'')) =
       Inr (Some \<lparr>token = PStr ''abcdefghijklmnopqrstuvwxyz123456'', visitorData = PStr ''xyz987''\<rparr>)"
proof -
  let ?d = "[(''token'', PStr ''abcdefghijklmnopqrstuvwxyz123456''), (''visitorData'', PStr ''xyz987'')]"
  have h1: "CHR ''{'' \<notin> set (''starting'' @ newline)" by code_simp
  have h2: "CHR ''}'' \<notin> set (newline @ ''done'')" by code_simp
  have h3: "decode_json (CHR ''{'' # json_text_mid @ [CHR ''}'']) = Inr (PDict ?d)" by code_simp
  have t: "py_or (dict_get ?d ''token'') (dict_get ?d ''poToken'') = PStr ''abcdefghijklmnopqrstuvwxyz123456''"
    by code_simp
  have v: "py_or (dict_get ?d ''visitorData'') (dict_get ?d ''visitor_data'') = PStr ''xyz987''"
    by code_simp
  have h4: "truthy (py_or (dict_get ?d ''token'') (dict_get ?d ''poToken''))" unfolding t by simp
  have h5: "truthy (py_or (dict_get ?d ''visitorData'') (dict_get ?d ''visitor_data''))" unfolding v by simp
  from embedded_json_returned [where loads = decode_json and d = ?d, OF h1 h2 h3 h4 h5] h1 h2 h3 show ?thesis
    unfolding t v by blast
qed

lemma json_pass_decode_error:
  assumes "0 \<le> str_find CHR ''{'' output"
    and "str_find CHR ''{'' output < str_rfind CHR ''}'' output + 1"
    and "loads (str_slice output (str_find CHR ''{'' output) (str_rfind CHR ''}'' output + 1)) = Inl e"
  shows "json_pass loads output = (PNone, PNone)"
  using assms by (simp add: json_pass_def json_try_def Let_def)

text \<open>
  C7. When the text from the first \<open>{\<close> to the last \<open>}\<close> of the output is one the
  decoder raises on, neither parser raises: each returns what its line scan, started
  with both variables \<open>None\<close>, leads to, and that is the pair when both values are
  true and \<open>None\<close> otherwise, never one value alone.
\<close>

theorem malformed_json_falls_through:
  assumes "0 \<le> str_find CHR ''{'' output"
    and "str_find CHR ''{'' output < str_rfind CHR ''}'' output + 1"
    and "loads (str_slice output (str_find CHR ''{'' output) (str_rfind CHR ''}'' output + 1)) = Inl e"
  shows "\<exists>tp td.
      for_lines scan_line_python (str_split (CHR 0x0A) output) (PNone, PNone) = Inr tp
    \<and> parse_output_python loads output =
        Inr (if truthy (fst tp) \<and> truthy (snd tp)
             then Some \<lparr>token = fst tp, visitorData = snd tp\<rparr> else None)
    \<and> for_lines scan_line_docker (str_split (CHR 0x0A) output) (PNone, PNone) = Inr td
    \<and> parse_output_docker loads output =
        Inr (if truthy (fst td) \<and> truthy (snd td)
             then Some \<lparr>token = fst td, visitorData = snd td\<rparr> else None)"
proof -
  have jp: "json_pass loads output = (PNone, PNone)"
    using assms by (rule json_pass_decode_error)
  obtain tp where tp: "for_lines scan_line_python (str_split (CHR 0x0A) output) (PNone, PNone) = Inr tp"
    using for_lines_total [of scan_line_python] scan_line_python_total by blast
  obtain td where td: "for_lines scan_line_docker (str_split (CHR 0x0A) output) (PNone, PNone) = Inr td"
    using for_lines_total [of scan_line_docker] scan_line_docker_total by blast
  have "parse_output_python loads output = Inr (finish tp)"
    using jp tp by (simp add: parse_output_python_def)
  moreover have "parse_output_docker loads output = Inr (finish td)"
    using jp td by (simp add: parse_output_docker_def)
  ultimately show ?thesis
    using tp td unfolding finish_def by blast
qed

text \<open>An output whose braces hold no JSON, with both values on later lines.\<close>

theorem malformed_json_falls_through_witness:
  "0 \<le> str_find CHR ''{'' malformed_output
   \<and> str_find CHR ''{'' malformed_output < str_rfind CHR ''}'' malformed_output + 1
   \<and> str_slice malformed_output (str_find CHR ''{'' malformed_output)
        (str_rfind CHR ''}'' malformed_output + 1) = ''{not json}''
   \<and> decode_json ''{not json}'' = Inl (Exn JSONDecodeError ''Expecting value'')
   \<and> parse_output_python decode_json malformed_output =
        Inr (Some \<lparr>token = PStr ''abcdefghijklmnopqrstuvwxyz123456'', visitorData = PStr ''xyz987''\<rparr>)
   \<and> parse_output_docker decode_json malformed_output =
        Inr (Some \<lparr>token = PStr ''abcdefghijklmnopqrstuvwxyz123456'', visitorData = PStr ''xyz987''\<rparr>)"
proof -
  have h1: "0 \<le> str_find CHR ''{'' malformed_output" by code_simp
  have h2: "str_find CHR ''{'' malformed_output < str_rfind CHR ''}'' malformed_output + 1"
    by code_simp
  have sl: "str_slice malformed_output (str_find CHR ''{'' malformed_output)
        (str_rfind CHR ''}'' malformed_output + 1) = ''{not json}''" by code_simp
  have de: "decode_json ''{not json}'' = Inl (Exn JSONDecodeError ''Expecting value'')"
    by code_simp
  have h3: "decode_json (str_slice malformed_output (str_find CHR ''{'' malformed_output)
        (str_rfind CHR ''}'' malformed_output + 1)) = Inl (Exn JSONDecodeError ''Expecting value'')"
    using sl de by simp
  have lp: "for_lines scan_line_python (str_split (CHR 0x0A) malformed_output) (PNone, PNone) =
      Inr (PStr ''abcdefghijklmnopqrstuvwxyz123456'', PStr ''xyz987'')" by code_simp
  have ld: "for_lines scan_line_docker (str_split (CHR 0x0A) malformed_output) (PNone, PNone) =
      Inr (PStr ''abcdefghijklmnopqrstuvwxyz123456'', PStr ''xyz987'')" by code_simp
  from malformed_json_falls_through [where loads = decode_json, OF h1 h2 h3] lp ld
  have "parse_output_python decode_json malformed_output =
        Inr (Some \<lparr>token = PStr ''abcdefghijklmnopqrstuvwxyz123456'', visitorData = PStr ''xyz987''\<rparr>)
   \<and> parse_output_docker decode_json malformed_output =
        Inr (Some \<lparr>token = PStr ''abcdefghijklmnopqrstuvwxyz123456'', visitorData = PStr ''xyz987''\<rparr>)"
    by auto
  with h1 h2 sl de show ?thesis by blast
qed

section \<open>The strategies\<close>

lemma finish_truthy: "finish tv = Some toks \<Longrightarrow> truthy (token toks) \<and> truthy (visitorData toks)"
  by (auto simp: finish_def split: if_splits)

lemma parse_output_python_Some:
  "parse_output_python loads output = Inr (Some toks) \<Longrightarrow>
     truthy (token toks) \<and> truthy (visitorData toks)"
  by (auto simp: parse_output_python_def Let_def split: sum.splits if_splits dest: finish_truthy)

lemma parse_output_docker_Some:
  "parse_output_docker loads output = Inr (Some toks) \<Longrightarrow>
     truthy (token toks) \<and> truthy (visitorData toks)"
  by (auto simp: parse_output_docker_def Let_def split: sum.splits if_splits dest: finish_truthy)

lemma run_generator_result:
  "fst (run_generator w p tr) = Inr (Some toks) \<Longrightarrow> truthy (token toks) \<and> truthy (visitorData toks)"
  by (auto simp: run_generator_def Let_def split: option.splits run_outcome.splits
      dest: parse_output_python_Some)

lemma python_try_result:
  "fst (python_try w tr) = Inr (Some toks) \<Longrightarrow> truthy (token toks) \<and> truthy (visitorData toks)"
  by (auto simp: python_try_def Let_def split: if_splits list.splits dest: run_generator_result)

lemma generate_token_python_result:
  "\<exists>r tr'. generate_token_python w tr = (Inr r, tr')
       \<and> (\<forall>toks. r = Some toks \<longrightarrow> truthy (token toks) \<and> truthy (visitorData toks))"
proof (cases "python_try w tr")
  case (Pair x tr')
  show ?thesis
  proof (cases x)
    case (Inl e)
    with Pair show ?thesis by (simp add: generate_token_python_def)
  next
    case (Inr r)
    with Pair python_try_result [of w tr] show ?thesis
      by (simp add: generate_token_python_def)
  qed
qed

lemma docker_try_result:
  "fst (docker_try w tr) = Inr (Some toks) \<Longrightarrow> truthy (token toks) \<and> truthy (visitorData toks)"
  by (auto simp: docker_try_def Let_def split: run_outcome.splits if_splits
      dest: parse_output_docker_Some)

lemma generate_token_docker_result:
  "\<exists>r tr'. generate_token_docker w tr = (Inr r, tr')
       \<and> (\<forall>toks. r = Some toks \<longrightarrow> truthy (token toks) \<and> truthy (visitorData toks))"
proof (cases "docker_try w tr")
  case (Pair x tr')
  show ?thesis
  proof (cases x)
    case (Inl e)
    with Pair generate_token_python_result [of w tr'] show ?thesis
      by (simp add: generate_token_docker_def)
  next
    case (Inr r)
    with Pair docker_try_result [of w tr] show ?thesis
      by (simp add: generate_token_docker_def)
  qed
qed

lemma run_generator_trace:
  "take (length tr) (snd (run_generator w p tr)) = tr
   \<and> (\<forall>ev \<in> set (drop (length tr) (snd (run_generator w p tr))). \<not> docker_call ev)"
  by (auto simp: run_generator_def Let_def split: option.splits run_outcome.splits)

lemma python_try_trace:
  "take (length tr) (snd (python_try w tr)) = tr
   \<and> (\<forall>ev \<in> set (drop (length tr) (snd (python_try w tr))). \<not> docker_call ev)"
  using run_generator_trace [of tr w]
  by (auto simp: python_try_def Let_def split: list.splits)

lemma generate_token_python_snd: "snd (generate_token_python w tr) = snd (python_try w tr)"
  by (cases "python_try w tr") (auto simp: generate_token_python_def split: sum.splits)

lemma generate_token_python_trace:
  "\<exists>evs. snd (generate_token_python w tr) = tr @ evs \<and> (\<forall>ev \<in> set evs. \<not> docker_call ev)"
proof -
  let ?tr' = "snd (generate_token_python w tr)"
  have "?tr' = take (length tr) ?tr' @ drop (length tr) ?tr'" by simp
  then have "?tr' = tr @ drop (length tr) ?tr'"
    using python_try_trace [of tr w] by (simp add: generate_token_python_snd)
  moreover have "\<forall>ev \<in> set (drop (length tr) ?tr'). \<not> docker_call ev"
    using python_try_trace [of tr w] by (simp add: generate_token_python_snd)
  ultimately show ?thesis by blast
qed

lemma docker_try_snd: "snd (docker_try w tr) = tr @ [Run docker_argv None 60 []]"
  by (auto simp: docker_try_def Let_def split: run_outcome.splits)

lemma generate_token_docker_trace:
  "\<exists>evs. snd (generate_token_docker w tr) = tr @ evs"
proof (cases "docker_try w tr")
  case (Pair x tr')
  then have tr': "tr' = tr @ [Run docker_argv None 60 []]"
    using docker_try_snd [of w tr] by simp
  show ?thesis
  proof (cases x)
    case (Inl e)
    from generate_token_python_trace [of w tr'] obtain evs
      where "snd (generate_token_python w tr') = tr' @ evs" by blast
    with Pair Inl tr' show ?thesis by (simp add: generate_token_docker_def)
  next
    case (Inr r)
    with Pair tr' show ?thesis by (simp add: generate_token_docker_def)
  qed
qed

lemma update_lavalink_token_eq:
  "update_lavalink_token cfg w tok vd tr =
     (let tr1 = tr @ [Post (LAVALINK_URL cfg @ ''/youtube'')
                        (PDict [(''poToken'', tok), (''visitorData'', vd)])
                        [(''Content-Type'', ''application/json''),
                         (''Authorization'', LAVALINK_PASSWORD cfg)] 10]
      in (Inr (post_outcome w tr1 = Inr 204), tr1))"
  by (auto simp: update_lavalink_token_def update_try_def Let_def split: sum.splits)

text \<open>The example worlds, evaluated once.\<close>

lemma good_output_parsed:
  "parse_output_python decode_json good_output = Inr (Some good_tokens)"
  by code_simp

lemma example_python_good:
  "generate_token_python (example_world (Completed 0 good_output []) docker_run post) tr =
     (Inr (Some good_tokens), tr @ python_events)"
  by (simp add: generate_token_python_def python_try_def run_generator_def example_world_def
      Let_def good_output_parsed python_events_def)

lemma example_python_timeout:
  "generate_token_python (example_world timed_out docker_run post) tr =
     (Inr None, tr @ python_events)"
  by (simp add: generate_token_python_def python_try_def run_generator_def example_world_def
      Let_def timed_out_def python_events_def)

lemma example_docker_run:
  "run_result (example_world python_run docker_run post) (tr @ [Run docker_argv None 60 []]) =
     docker_run"
  by (simp add: example_world_def docker_argv_def)

lemma example_docker_raises:
  "generate_token_docker (example_world python_run (RunRaises e) post) tr =
     generate_token_python (example_world python_run (RunRaises e) post)
       (tr @ [Run docker_argv None 60 []])"
  by (simp add: generate_token_docker_def docker_try_def example_docker_run Let_def)

lemma example_docker_exit_status:
  "returncode \<noteq> 0 \<Longrightarrow>
   generate_token_docker (example_world python_run (Completed returncode out err) post) tr =
     (Inr None, tr @ [Run docker_argv None 60 []])"
  by (simp add: generate_token_docker_def docker_try_def example_docker_run Let_def)

lemma default_config:
  "load_config Map.empty =
     \<lparr>LAVALINK_URL = ''http://localhost:9296'', LAVALINK_PASSWORD = ''glace'', USE_DOCKER = True\<rparr>"
  by code_simp

lemma example_update:
  "update_lavalink_token (load_config Map.empty) (example_world python_run docker_run post)
      (token good_tokens) (visitorData good_tokens) tr =
     (Inr (post = Inr 204), tr @ [post_event])"
  by (simp add: update_lavalink_token_eq default_config example_world_def post_event_def
      good_tokens_def Let_def)

text \<open>
  C1. The claim: in the line scan a token candidate is accepted only when it is longer
  than 20 characters, in the parser of both strategies, so that a candidate of 15
  characters yields no token. The scan of \<open>generate_token_python\<close> has the test
  (\<open>for_lines_python_token\<close> above) and its parser returns \<open>None\<close> on the output of
  two lines \<open>token: abcdefghijklmno\<close> and \<open>visitorData: xyz987\<close>. The scan of
  \<open>generate_token_docker\<close> has no such test: when \<open>docker\<close> exits with status 0 and
  that output, the strategy returns the candidate of 15 characters as the token.
\<close>

theorem docker_scan_accepts_short_token:
  assumes "run_result w (tr @ [Run docker_argv None 60 []]) = Completed 0 short_token_output stderr"
  shows "parse_output_python (json_loads w) short_token_output = Inr None
       \<and> generate_token_docker w tr =
           (Inr (Some \<lparr>token = PStr ''abcdefghijklmno'', visitorData = PStr ''xyz987''\<rparr>),
            tr @ [Run docker_argv None 60 []])"
  using assms
  by (simp add: generate_token_docker_def docker_try_def Let_def short_token_parse_docker
      short_token_parse_python short_tokens_def)

text \<open>A world where \<open>docker\<close> prints these two lines.\<close>

theorem docker_scan_accepts_short_token_witness:
  "run_result (example_world timed_out (Completed 0 short_token_output []) (Inr 204))
      ([] @ [Run docker_argv None 60 []]) = Completed 0 short_token_output []
   \<and> length ''abcdefghijklmno'' = 15
   \<and> generate_token_docker (example_world timed_out (Completed 0 short_token_output []) (Inr 204)) [] =
       (Inr (Some \<lparr>token = PStr ''abcdefghijklmno'', visitorData = PStr ''xyz987''\<rparr>),
        [docker_event])"
proof -
  let ?w = "example_world timed_out (Completed 0 short_token_output []) (Inr 204)"
  have h: "run_result ?w ([] @ [Run docker_argv None 60 []]) = Completed 0 short_token_output []"
    by (rule example_docker_run)
  from docker_scan_accepts_short_token [OF h] h show ?thesis
    by (simp add: docker_event_def)
qed

text \<open>
  C6. Neither strategy lets an exception out. Whatever the file system, Xvfb, the
  subprocess (a timeout, a missing executable, any other error, any exit status, any
  output) and the decoder do, \<open>generate_token_python\<close> and \<open>generate_token_docker\<close>
  return a value, and that value is \<open>None\<close> or a pair whose token and visitor value
  are both true values.
\<close>

theorem strategies_never_raise:
  "(\<exists>r tr'. generate_token_python w tr = (Inr r, tr')
       \<and> (\<forall>toks. r = Some toks \<longrightarrow> truthy (token toks) \<and> truthy (visitorData toks)))
   \<and> (\<exists>r tr'. generate_token_docker w tr = (Inr r, tr')
       \<and> (\<forall>toks. r = Some toks \<longrightarrow> truthy (token toks) \<and> truthy (visitorData toks)))"
  using generate_token_python_result generate_token_docker_result by blast

text \<open>A generator that times out, and a missing docker followed by a generator
  that prints both values.\<close>

theorem strategies_never_raise_witness:
  "generate_token_python (example_world timed_out docker_missing (Inr 204)) [] =
     (Inr None, python_events)
   \<and> generate_token_docker (example_world (Completed 0 good_output []) docker_missing (Inr 204)) [] =
     (Inr (Some good_tokens), docker_event # python_events)"
proof -
  have a: "generate_token_python (example_world timed_out docker_missing (Inr 204)) [] =
     (Inr None, python_events)"
    by (simp add: example_python_timeout)
  have b: "generate_token_docker (example_world (Completed 0 good_output []) docker_missing (Inr 204)) [] =
     (Inr (Some good_tokens), docker_event # python_events)"
    by (simp add: docker_missing_def example_docker_raises example_python_good docker_event_def)
  from strategies_never_raise [of "example_world timed_out docker_missing (Inr 204)" "[]"] a b
  show ?thesis by simp
qed

text \<open>
  C8. When the run of \<open>docker\<close> raises FileNotFoundError, \<open>generate_token_docker\<close>
  returns what \<open>generate_token_python\<close>, called after the failed run, returns.
\<close>

theorem docker_missing_falls_back:
  assumes "run_result w (tr @ [Run docker_argv None 60 []]) = RunRaises e"
    and "cls e = FileNotFoundError"
  shows "generate_token_docker w tr = generate_token_python w (tr @ [Run docker_argv None 60 []])"
  using assms by (simp add: generate_token_docker_def docker_try_def Let_def)

text \<open>Docker is missing and the generator script succeeds.\<close>

theorem docker_missing_falls_back_witness:
  "run_result (example_world (Completed 0 good_output []) docker_missing (Inr 204))
      ([] @ [Run docker_argv None 60 []]) =
     RunRaises (Exn FileNotFoundError ''No such file or directory: docker'')
   \<and> generate_token_python (example_world (Completed 0 good_output []) docker_missing (Inr 204))
        ([] @ [Run docker_argv None 60 []]) =
       (Inr (Some good_tokens), docker_event # python_events)
   \<and> generate_token_docker (example_world (Completed 0 good_output []) docker_missing (Inr 204)) [] =
       (Inr (Some good_tokens), docker_event # python_events)"
proof -
  let ?w = "example_world (Completed 0 good_output []) docker_missing (Inr 204)"
  have h1: "run_result ?w ([] @ [Run docker_argv None 60 []]) =
     RunRaises (Exn FileNotFoundError ''No such file or directory: docker'')"
    unfolding example_docker_run by (simp add: docker_missing_def)
  have h2: "cls (Exn FileNotFoundError ''No such file or directory: docker'') = FileNotFoundError"
    by simp
  have p: "generate_token_python ?w ([] @ [Run docker_argv None 60 []]) =
       (Inr (Some good_tokens), docker_event # python_events)"
    by (simp add: example_python_good docker_event_def)
  from docker_missing_falls_back [OF h1 h2] h1 p show ?thesis by simp
qed

text \<open>
  C9. Every exception of the run of \<open>docker\<close>, of whatever class, leads to
  \<open>generate_token_python\<close> and to its result; a run that completes with a nonzero exit
  status gives \<open>None\<close> at once, and the trace shows the run of \<open>docker\<close> and nothing
  after it.
\<close>

theorem docker_exception_or_exit_status:
  "(\<forall>e. run_result w (tr @ [Run docker_argv None 60 []]) = RunRaises e \<longrightarrow>
        generate_token_docker w tr = generate_token_python w (tr @ [Run docker_argv None 60 []]))
   \<and> (\<forall>returncode stdout stderr.
        run_result w (tr @ [Run docker_argv None 60 []]) = Completed returncode stdout stderr
          \<and> returncode \<noteq> 0 \<longrightarrow>
        generate_token_docker w tr = (Inr None, tr @ [Run docker_argv None 60 []]))"
  by (simp add: generate_token_docker_def docker_try_def Let_def)

text \<open>A run of docker that times out, and one that exits with status 1.\<close>

theorem docker_exception_or_exit_status_witness:
  "run_result (example_world (Completed 0 good_output []) timed_out (Inr 204))
      ([] @ [Run docker_argv None 60 []]) = RunRaises (Exn TimeoutExpired ''timed out'')
   \<and> generate_token_docker (example_world (Completed 0 good_output []) timed_out (Inr 204)) [] =
       (Inr (Some good_tokens), docker_event # python_events)
   \<and> run_result (example_world (Completed 0 good_output []) (Completed 1 [] ''no image'') (Inr 204))
      ([] @ [Run docker_argv None 60 []]) = Completed 1 [] ''no image''
   \<and> generate_token_docker
        (example_world (Completed 0 good_output []) (Completed 1 [] ''no image'') (Inr 204)) [] =
       (Inr None, [docker_event])"
proof -
  let ?w1 = "example_world (Completed 0 good_output []) timed_out (Inr 204)"
  let ?w2 = "example_world (Completed 0 good_output []) (Completed 1 [] ''no image'') (Inr 204)"
  have h1: "run_result ?w1 ([] @ [Run docker_argv None 60 []]) =
      RunRaises (Exn TimeoutExpired ''timed out'')"
    unfolding example_docker_run by (simp add: timed_out_def)
  have p: "generate_token_python ?w1 ([] @ [Run docker_argv None 60 []]) =
       (Inr (Some good_tokens), docker_event # python_events)"
    by (simp add: example_python_good docker_event_def)
  have h2: "run_result ?w2 ([] @ [Run docker_argv None 60 []]) = Completed 1 [] ''no image''"
    unfolding example_docker_run by simp
  from docker_exception_or_exit_status [of ?w1 "[]"] h1 p
  have a: "generate_token_docker ?w1 [] = (Inr (Some good_tokens), docker_event # python_events)"
    by simp
  from docker_exception_or_exit_status [of ?w2 "[]"] h2
  have b: "generate_token_docker ?w2 [] = (Inr None, [docker_event])"
    by (simp add: docker_event_def)
  from h1 a h2 b show ?thesis by blast
qed

section \<open>The proxy updater\<close>

text \<open>
  C5. \<open>update_lavalink_token\<close> adds one event to the trace, the POST to
  \<open>LAVALINK_URL\<close> followed by \<open>/youtube\<close> with the body
  \<open>{"poToken": token, "visitorData": visitor_data}\<close> and the password as the
  Authorization header, and returns \<open>True\<close> exactly when the answer is the status 204:
  any other status and any exception give \<open>False\<close>.
\<close>

theorem update_posts_once_and_wants_204:
  "snd (update_lavalink_token cfg w tok visitor_data tr) =
     tr @ [Post (LAVALINK_URL cfg @ ''/youtube'')
             (PDict [(''poToken'', tok), (''visitorData'', visitor_data)])
             [(''Content-Type'', ''application/json''), (''Authorization'', LAVALINK_PASSWORD cfg)]
             10]
   \<and> fst (update_lavalink_token cfg w tok visitor_data tr) =
       Inr (post_outcome w (snd (update_lavalink_token cfg w tok visitor_data tr)) = Inr 204)"
  by (simp add: update_lavalink_token_eq Let_def)

text \<open>The answers 204, 200 and a refused connection.\<close>

theorem update_posts_once_and_wants_204_witness:
  "update_lavalink_token (load_config Map.empty)
      (example_world timed_out timed_out (Inr 204))
      (PStr ''abcdefghijklmnopqrstuvwxyz123456'') (PStr ''xyz987'') [] = (Inr True, [post_event])
   \<and> update_lavalink_token (load_config Map.empty)
      (example_world timed_out timed_out (Inr 200))
      (PStr ''abcdefghijklmnopqrstuvwxyz123456'') (PStr ''xyz987'') [] = (Inr False, [post_event])
   \<and> update_lavalink_token (load_config Map.empty)
      (example_world timed_out timed_out (Inl (Exn OtherError ''connection refused'')))
      (PStr ''abcdefghijklmnopqrstuvwxyz123456'') (PStr ''xyz987'') [] = (Inr False, [post_event])"
proof -
  have "update_lavalink_token (load_config Map.empty) (example_world timed_out timed_out p)
      (PStr ''abcdefghijklmnopqrstuvwxyz123456'') (PStr ''xyz987'') [] =
      (Inr (p = Inr 204), [post_event])" for p
    using update_posts_once_and_wants_204 [of "load_config Map.empty"
        "example_world timed_out timed_out p" "PStr ''abcdefghijklmnopqrstuvwxyz123456''"
        "PStr ''xyz987''" "[]"]
    unfolding default_config by (simp add: prod_eq_iff example_world_def post_event_def)
  then show ?thesis by simp
qed

section \<open>Configuration\<close>

text \<open>
  C10, as amended. When \<open>LAVALINK_URL\<close> is set to a text that is not empty, the URL
  of the configuration is that text if it starts with \<open>http://\<close> or \<open>https://\<close>, and
  \<open>http://\<close> followed by that text otherwise; so it starts with one of the two.
\<close>

theorem lavalink_url_scheme:
  assumes "environ ''LAVALINK_URL'' = Some url" and "url \<noteq> []"
  shows "LAVALINK_URL (load_config environ) =
           (if startswith ''http://'' url \<or> startswith ''https://'' url then url
            else ''http://'' @ url)
       \<and> (startswith ''http://'' (LAVALINK_URL (load_config environ))
          \<or> startswith ''https://'' (LAVALINK_URL (load_config environ)))"
  using assms by (auto simp: load_config_def getenv_def ensure_protocol_def startswith_def)

text \<open>
  C10 as stated fails when \<open>LAVALINK_URL\<close> is set to the empty text: it starts with
  neither scheme, and line 24 leaves it as it is, without a scheme.
\<close>

theorem lavalink_url_empty_counterexample:
  "\<not> startswith ''http://'' [] \<and> \<not> startswith ''https://'' []
   \<and> LAVALINK_URL (load_config (Map.empty(''LAVALINK_URL'' \<mapsto> []))) = []
   \<and> LAVALINK_URL (load_config (Map.empty(''LAVALINK_URL'' \<mapsto> []))) \<noteq> ''http://'' @ []"
  by (simp add: load_config_def getenv_def ensure_protocol_def startswith_def)

text \<open>A host without a scheme, and a URL with one.\<close>

theorem lavalink_url_scheme_witness:
  "LAVALINK_URL (load_config (Map.empty(''LAVALINK_URL'' \<mapsto> ''lavalink:2333''))) = ''http://lavalink:2333''
   \<and> LAVALINK_URL (load_config (Map.empty(''LAVALINK_URL'' \<mapsto> ''https://lavalink.example''))) = ''https://lavalink.example''"
proof -
  have a: "(Map.empty(''LAVALINK_URL'' \<mapsto> ''lavalink:2333'')) ''LAVALINK_URL'' = Some ''lavalink:2333''"
    by simp
  have b: "(Map.empty(''LAVALINK_URL'' \<mapsto> ''https://lavalink.example'')) ''LAVALINK_URL'' = Some ''https://lavalink.example''"
    by simp
  have na: "''lavalink:2333'' \<noteq> []" and nb: "''https://lavalink.example'' \<noteq> []" by simp_all
  from lavalink_url_scheme [where environ = "Map.empty(''LAVALINK_URL'' \<mapsto> ''lavalink:2333'')", OF a na]
    lavalink_url_scheme [where environ = "Map.empty(''LAVALINK_URL'' \<mapsto> ''https://lavalink.example'')", OF b nb]
  show ?thesis
    by (simp add: startswith_def)
qed

section \<open>The refresh endpoint\<close>

lemma generate_with_python_first:
  assumes "fst (gen_python tr) = Inr r" and "r \<noteq> None \<or> \<not> use_docker"
  shows "generate_with gen_python gen_docker use_docker tr = gen_python tr"
  using assms by (cases "gen_python tr") (auto simp: generate_with_def)

lemma refresh_token_trace:
  assumes "generate cfg w tr = (Inr r, tr1)"
  shows "snd (refresh_token cfg w tr) =
           (case r of
              None \<Rightarrow> tr1
            | Some toks \<Rightarrow>
                tr1 @ [Post (LAVALINK_URL cfg @ ''/youtube'')
                         (PDict [(''poToken'', token toks), (''visitorData'', visitorData toks)])
                         [(''Content-Type'', ''application/json''),
                          (''Authorization'', LAVALINK_PASSWORD cfg)] 10])"
  using assms
  by (cases r)
    (simp_all add: refresh_token_def refresh_token_with_def refresh_try_def generate_def
      update_lavalink_token_eq Let_def)

text \<open>
  C3. The generation of \<open>refresh_token\<close> starts with \<open>generate_token_python\<close>: the
  trace of that call is the start of its trace. When that call returns a pair, or returns
  \<open>None\<close> while \<open>USE_DOCKER\<close> is false, the generation is that call and nothing more:
  it returns the same value (so \<open>None\<close> in the second case), and nothing that it, or the
  whole of \<open>refresh_token\<close>, adds to the trace is a container call.
\<close>

theorem python_first_docker_gated:
  "(\<exists>evs. snd (generate cfg w tr) = snd (generate_token_python w tr) @ evs)
   \<and> (\<forall>r. fst (generate_token_python w tr) = Inr r \<and> (r \<noteq> None \<or> \<not> USE_DOCKER cfg) \<longrightarrow>
         generate cfg w tr = generate_token_python w tr
         \<and> (\<exists>evs. snd (generate cfg w tr) = tr @ evs \<and> (\<forall>ev \<in> set evs. \<not> docker_call ev))
         \<and> (\<exists>evs. snd (refresh_token cfg w tr) = tr @ evs \<and> (\<forall>ev \<in> set evs. \<not> docker_call ev)))"
proof (intro conjI allI impI)
  show "\<exists>evs. snd (generate cfg w tr) = snd (generate_token_python w tr) @ evs"
  proof (cases "generate_token_python w tr")
    case (Pair x tr1)
    from generate_token_docker_trace [of w tr1] obtain evs
      where "snd (generate_token_docker w tr1) = tr1 @ evs" by blast
    with Pair show ?thesis
      by (auto simp: generate_def generate_with_def split: sum.splits)
  qed
next
  fix r
  assume a: "fst (generate_token_python w tr) = Inr r \<and> (r \<noteq> None \<or> \<not> USE_DOCKER cfg)"
  then show g: "generate cfg w tr = generate_token_python w tr"
    unfolding generate_def by (intro generate_with_python_first) auto
  from generate_token_python_trace [of w tr] obtain evs
    where evs: "snd (generate_token_python w tr) = tr @ evs" "\<forall>ev \<in> set evs. \<not> docker_call ev"
    by blast
  show "\<exists>evs. snd (generate cfg w tr) = tr @ evs \<and> (\<forall>ev \<in> set evs. \<not> docker_call ev)"
    unfolding g using evs by blast
  from a g evs have ge: "generate cfg w tr = (Inr r, tr @ evs)"
    by (simp add: prod_eq_iff)
  show "\<exists>evs. snd (refresh_token cfg w tr) = tr @ evs \<and> (\<forall>ev \<in> set evs. \<not> docker_call ev)"
  proof (cases r)
    case None
    with refresh_token_trace [OF ge] evs show ?thesis by auto
  next
    case (Some toks)
    let ?p = "Post (LAVALINK_URL cfg @ ''/youtube'')
                (PDict [(''poToken'', token toks), (''visitorData'', visitorData toks)])
                [(''Content-Type'', ''application/json''),
                 (''Authorization'', LAVALINK_PASSWORD cfg)] 10"
    from refresh_token_trace [OF ge] Some
    have "snd (refresh_token cfg w tr) = tr @ (evs @ [?p])" by simp
    moreover have "\<forall>ev \<in> set (evs @ [?p]). \<not> docker_call ev" using evs by simp
    ultimately show ?thesis by blast
  qed
qed

text \<open>A generator that succeeds with containers allowed, and one that times out with
  \<open>USE_DOCKER=false\<close>.\<close>

theorem python_first_docker_gated_witness:
  "generate (load_config Map.empty)
      (example_world (Completed 0 good_output []) docker_missing (Inr 204)) [] =
     (Inr (Some good_tokens), python_events)
   \<and> USE_DOCKER (load_config (Map.empty(''USE_DOCKER'' \<mapsto> ''false''))) = False
   \<and> generate (load_config (Map.empty(''USE_DOCKER'' \<mapsto> ''false'')))
      (example_world timed_out docker_missing (Inr 204)) [] = (Inr None, python_events)
   \<and> snd (refresh_token (load_config (Map.empty(''USE_DOCKER'' \<mapsto> ''false'')))
      (example_world timed_out docker_missing (Inr 204)) []) = python_events
   \<and> filter docker_call python_events = []"
proof -
  let ?w1 = "example_world (Completed 0 good_output []) docker_missing (Inr 204)"
  let ?w2 = "example_world timed_out docker_missing (Inr 204)"
  let ?c2 = "load_config (Map.empty(''USE_DOCKER'' \<mapsto> ''false''))"
  have p1: "generate_token_python ?w1 [] = (Inr (Some good_tokens), python_events)"
    by (simp add: example_python_good)
  have p2: "generate_token_python ?w2 [] = (Inr None, python_events)"
    by (simp add: example_python_timeout)
  have u: "USE_DOCKER ?c2 = False" by code_simp
  from python_first_docker_gated [of "load_config Map.empty" ?w1 "[]"] p1
  have a: "generate (load_config Map.empty) ?w1 [] = (Inr (Some good_tokens), python_events)"
    by simp
  from python_first_docker_gated [of ?c2 ?w2 "[]"] p2 u
  have b: "generate ?c2 ?w2 [] = (Inr None, python_events)"
    by simp
  from refresh_token_trace [OF b]
  have r: "snd (refresh_token ?c2 ?w2 []) = python_events" by simp
  have c: "filter docker_call python_events = []"
    by (simp add: python_events_def)
  from a u b r c show ?thesis by blast
qed

lemma success_not_error: "success_response \<noteq> error_response m"
  by (simp add: success_response_def error_response_def)

text \<open>
  C4. The answer of \<open>/refresh\<close> is the status 200 with
  \<open>{"success": true, "message": "Token refreshed successfully"}\<close> exactly when the
  generation returns a pair and the update returns \<open>True\<close>. It is the status 500 with
  the error \<open>Failed to generate token\<close> when the generation returns \<open>None\<close>, with the
  error \<open>Failed to update Lavalink\<close> when the update returns \<open>False\<close>, and with the
  text of the exception when the generation or the update raises one. This holds for
  any three callees, so also for the module's own, which \<open>refresh_token\<close> uses.
\<close>

theorem refresh_responses:
  "(fst (refresh_token_with gen_python gen_docker update use_docker tr) = success_response \<longleftrightarrow>
      (\<exists>toks tr1. generate_with gen_python gen_docker use_docker tr = (Inr (Some toks), tr1)
         \<and> fst (update (token toks) (visitorData toks) tr1) = Inr True))
   \<and> (\<forall>tr1. generate_with gen_python gen_docker use_docker tr = (Inr None, tr1) \<longrightarrow>
         fst (refresh_token_with gen_python gen_docker update use_docker tr) =
           error_response ''Failed to generate token'')
   \<and> (\<forall>toks tr1. generate_with gen_python gen_docker use_docker tr = (Inr (Some toks), tr1)
         \<and> fst (update (token toks) (visitorData toks) tr1) = Inr False \<longrightarrow>
         fst (refresh_token_with gen_python gen_docker update use_docker tr) =
           error_response ''Failed to update Lavalink'')
   \<and> (\<forall>e tr1. generate_with gen_python gen_docker use_docker tr = (Inl e, tr1) \<longrightarrow>
         fst (refresh_token_with gen_python gen_docker update use_docker tr) =
           error_response (msg e))
   \<and> (\<forall>toks tr1 e. generate_with gen_python gen_docker use_docker tr = (Inr (Some toks), tr1)
         \<and> fst (update (token toks) (visitorData toks) tr1) = Inl e \<longrightarrow>
         fst (refresh_token_with gen_python gen_docker update use_docker tr) =
           error_response (msg e))
   \<and> success_response =
       \<lparr>http_status = 200,
        http_body = PDict [(''success'', PBool True),
                           (''message'', PStr ''Token refreshed successfully'')]\<rparr>
   \<and> (\<forall>m. error_response m =
       \<lparr>http_status = 500, http_body = PDict [(''success'', PBool False), (''error'', PStr m)]\<rparr>)"
proof -
  obtain x tr1 where g: "generate_with gen_python gen_docker use_docker tr = (x, tr1)"
    by (cases "generate_with gen_python gen_docker use_docker tr")
  show ?thesis
  proof (cases x)
    case (Inl e)
    with g show ?thesis
      by (simp add: refresh_token_with_def refresh_try_def success_not_error [symmetric]
          success_response_def [symmetric] error_response_def [symmetric])
  next
    case (Inr r)
    show ?thesis
    proof (cases r)
      case None
      with g Inr show ?thesis
        by (simp add: refresh_token_with_def refresh_try_def success_not_error [symmetric]
          success_response_def [symmetric] error_response_def [symmetric])
    next
      case (Some toks)
      obtain y tr2 where u: "update (token toks) (visitorData toks) tr1 = (y, tr2)"
        by (cases "update (token toks) (visitorData toks) tr1")
      with g Inr Some show ?thesis
        by (cases y)
          (auto simp: refresh_token_with_def refresh_try_def success_not_error [symmetric]
            success_not_error success_response_def [symmetric] error_response_def [symmetric])
    qed
  qed
qed

text \<open>The three outcomes of the module's own callees, and a generator that raises.\<close>

theorem refresh_responses_witness:
  "fst (refresh_token (load_config Map.empty)
          (example_world (Completed 0 good_output []) docker_missing (Inr 204)) []) =
     success_response
   \<and> fst (refresh_token (load_config Map.empty)
          (example_world timed_out (Completed 1 [] ''no image'') (Inr 204)) []) =
     error_response ''Failed to generate token''
   \<and> fst (refresh_token (load_config Map.empty)
          (example_world (Completed 0 good_output []) docker_missing (Inr 200)) []) =
     error_response ''Failed to update Lavalink''
   \<and> fst (refresh_token_with (\<lambda>tr. (Inl (Exn OtherError ''boom''), tr))
          (generate_token_docker (example_world timed_out docker_missing (Inr 204)))
          (update_lavalink_token (load_config Map.empty)
             (example_world timed_out docker_missing (Inr 204))) True []) =
     error_response ''boom''"
proof -
  let ?c = "load_config Map.empty"
  let ?w1 = "example_world (Completed 0 good_output []) docker_missing (Inr 204)"
  let ?w2 = "example_world timed_out (Completed 1 [] ''no image'') (Inr 204)"
  let ?w3 = "example_world (Completed 0 good_output []) docker_missing (Inr 200)"
  let ?w4 = "example_world timed_out docker_missing (Inr 204)"
  have ud: "USE_DOCKER ?c = True" by (simp add: default_config)
  have g1: "generate_with (generate_token_python ?w1) (generate_token_docker ?w1) True [] =
      (Inr (Some good_tokens), python_events)"
    by (simp add: generate_with_def example_python_good)
  have u1: "fst (update_lavalink_token ?c ?w1 (token good_tokens) (visitorData good_tokens)
      python_events) = Inr True"
    by (simp add: example_update)
  have g2: "generate_with (generate_token_python ?w2) (generate_token_docker ?w2) True [] =
      (Inr None, python_events @ [Run docker_argv None 60 []])"
    by (simp add: generate_with_def example_python_timeout example_docker_exit_status)
  have g3: "generate_with (generate_token_python ?w3) (generate_token_docker ?w3) True [] =
      (Inr (Some good_tokens), python_events)"
    by (simp add: generate_with_def example_python_good)
  have u3: "fst (update_lavalink_token ?c ?w3 (token good_tokens) (visitorData good_tokens)
      python_events) = Inr False"
    by (simp add: example_update)
  have g4: "generate_with (\<lambda>tr. (Inl (Exn OtherError ''boom''), tr)) (generate_token_docker ?w4)
      True [] = (Inl (Exn OtherError ''boom''), [])"
    by (simp add: generate_with_def)
  from refresh_responses [of "generate_token_python ?w1" "generate_token_docker ?w1"
      "update_lavalink_token ?c ?w1" True "[]"] g1 u1
  have r1: "fst (refresh_token ?c ?w1 []) = success_response"
    unfolding refresh_token_def ud by blast
  from refresh_responses [of "generate_token_python ?w2" "generate_token_docker ?w2"
      "update_lavalink_token ?c ?w2" True "[]"] g2
  have r2: "fst (refresh_token ?c ?w2 []) = error_response ''Failed to generate token''"
    unfolding refresh_token_def ud by blast
  from refresh_responses [of "generate_token_python ?w3" "generate_token_docker ?w3"
      "update_lavalink_token ?c ?w3" True "[]"] g3 u3
  have r3: "fst (refresh_token ?c ?w3 []) = error_response ''Failed to update Lavalink''"
    unfolding refresh_token_def ud by blast
  from refresh_responses [of "\<lambda>tr. (Inl (Exn OtherError ''boom''), tr)"
      "generate_token_docker ?w4" "update_lavalink_token ?c ?w4" True "[]"] g4
  have r4: "fst (refresh_token_with (\<lambda>tr. (Inl (Exn OtherError ''boom''), tr))
          (generate_token_docker ?w4) (update_lavalink_token ?c ?w4) True []) =
     error_response ''boom''"
    by (metis exn.sel(2))
  from r1 r2 r3 r4 show ?thesis by blast
qed

end
